theory Spec2Isabelle
  imports Complex_Main "HOL-Library.AList"
begin

section \<open>JavaScript strings\<close>

text \<open>
  A JavaScript string is modelled as a \<^typ>\<open>string\<close>: the list of its code units,
  restricted to the 8-bit range (Latin-1). \<open>length\<close> is the source's \<open>.length\<close>.
  The character classes below are the ECMAScript ones cut down to that range.
\<close>

definition is_space :: "char \<Rightarrow> bool" where
  \<comment> \<open>the regex class \<open>\s\<close>, which is also what \<open>trim()\<close> strips: TAB, LF, VT, FF, CR, SP, NBSP\<close>
  "is_space c = (let n = (of_char c :: nat) in (9 \<le> n \<and> n \<le> 13) \<or> n = 32 \<or> n = 160)"

definition is_word :: "char \<Rightarrow> bool" where
  \<comment> \<open>the regex class \<open>\w\<close> = \<open>[A-Za-z0-9_]\<close> (unchanged by the \<open>i\<close> flag without \<open>u\<close>)\<close>
  "is_word c = (let n = (of_char c :: nat) in
     (48 \<le> n \<and> n \<le> 57) \<or> (65 \<le> n \<and> n \<le> 90) \<or> n = 95 \<or> (97 \<le> n \<and> n \<le> 122))"

definition toLowerCase_char :: "char \<Rightarrow> char" where
  \<comment> \<open>\<open>A-Z\<close> and the Latin-1 capitals \<open>0xC0-0xDE\<close> (but not the multiplication sign \<open>0xD7\<close>)
      move up by 32, which sets bit 5\<close>
  "toLowerCase_char c = (let n = (of_char c :: nat) in
     if (65 \<le> n \<and> n \<le> 90) \<or> (192 \<le> n \<and> n \<le> 222 \<and> n \<noteq> 215)
     then (case c of Char b0 b1 b2 b3 b4 b5 b6 b7 \<Rightarrow> Char b0 b1 b2 b3 b4 True b6 b7)
     else c)"

definition toLowerCase :: "string \<Rightarrow> string" where
  "toLowerCase s = map toLowerCase_char s"

fun startsWith :: "string \<Rightarrow> string \<Rightarrow> bool" where
  "startsWith s [] = True"
| "startsWith [] (p # ps) = False"
| "startsWith (c # cs) (p # ps) = (c = p \<and> startsWith cs ps)"

fun startsWith_ci :: "string \<Rightarrow> string \<Rightarrow> bool" where
  \<comment> \<open>a literal of a regex with the \<open>i\<close> flag, matched at the head of the text; the
      literals of this program are lower-case ASCII, so folding the text suffices\<close>
  "startsWith_ci s [] = True"
| "startsWith_ci [] (p # ps) = False"
| "startsWith_ci (c # cs) (p # ps) = (toLowerCase_char c = p \<and> of_char c < (128 :: nat) \<and> startsWith_ci cs ps)"

fun includes_str :: "string \<Rightarrow> string \<Rightarrow> bool" where
  \<comment> \<open>\<open>s.includes(t)\<close>: \<open>t\<close> occurs in \<open>s\<close> as a substring\<close>
  "includes_str [] t = (t = [])"
| "includes_str (c # cs) t = (startsWith (c # cs) t \<or> includes_str cs t)"

fun indexOf_ci :: "string \<Rightarrow> string \<Rightarrow> nat option" where
  \<comment> \<open>position of the first case-insensitive occurrence of the literal\<close>
  "indexOf_ci [] p = (if p = [] then Some 0 else None)"
| "indexOf_ci (c # cs) p =
     (if startsWith_ci (c # cs) p then Some 0 else map_option Suc (indexOf_ci cs p))"

definition trim :: "string \<Rightarrow> string" where
  "trim s = rev (dropWhile is_space (rev (dropWhile is_space s)))"

subsection \<open>Global regex replacement\<close>

text \<open>
  \<open>text.replace(/re/g, rep)\<close> scans from the left; where the expression matches, the match
  is replaced and the scan resumes behind it; elsewhere one code unit is kept. A matcher
  gives the length of the match at the head of the text. No expression of this program
  matches the empty string.
\<close>

function replace_all :: "(string \<Rightarrow> nat option) \<Rightarrow> string \<Rightarrow> string \<Rightarrow> string" where
  "replace_all m rep [] = []"
| "replace_all m rep (c # cs) =
     (case m (c # cs) of
        None \<Rightarrow> c # replace_all m rep cs
      | Some n \<Rightarrow> rep @ replace_all m rep (drop (n - 1) cs))"
  by pat_completeness auto
termination
  by (relation "measure (\<lambda>(m, rep, s). length s)") auto

definition match_script :: "string \<Rightarrow> nat option" where
  \<comment> \<open>\<open>/<script[^>]*>[\s\S]*?<\/script>/i\<close>: the opening tag up to the first \<open>>\<close>, then lazily
      up to the first closing tag\<close>
  "match_script s =
     (if startsWith_ci s ''<script'' then
        (let r = drop 7 s; attrs = takeWhile (\<lambda>c. c \<noteq> CHR ''>'') r; r' = dropWhile (\<lambda>c. c \<noteq> CHR ''>'') r in
         case r' of
           [] \<Rightarrow> None
         | gt # body \<Rightarrow>
             (case indexOf_ci body ''</script>'' of
                None \<Rightarrow> None
              | Some k \<Rightarrow> Some (7 + length attrs + 1 + k + 9)))
      else None)"

definition match_literal_ci :: "string \<Rightarrow> string \<Rightarrow> nat option" where
  "match_literal_ci p s = (if startsWith_ci s p then Some (length p) else None)"

definition match_literal :: "string \<Rightarrow> string \<Rightarrow> nat option" where
  "match_literal p s = (if startsWith s p then Some (length p) else None)"

definition match_handler :: "string \<Rightarrow> nat option" where
  \<comment> \<open>\<open>/on\w+\s*=/i\<close>: both repetitions are greedy and cannot give back, since \<open>=\<close> is
      neither a word character nor white space\<close>
  "match_handler s =
     (if startsWith_ci s ''on'' then
        (let r = drop 2 s; w = takeWhile is_word r; r' = dropWhile is_word r;
             sp = takeWhile is_space r'; r'' = dropWhile is_space r' in
         case r'' of
           [] \<Rightarrow> None
         | e # rest \<Rightarrow> if w \<noteq> [] \<and> e = CHR ''='' then Some (2 + length w + length sp + 1) else None)
      else None)"

definition match_spaces :: "string \<Rightarrow> nat option" where
  \<comment> \<open>\<open>/\s+/\<close>\<close>
  "match_spaces s = (case takeWhile is_space s of [] \<Rightarrow> None | w # ws \<Rightarrow> Some (Suc (length ws)))"

definition match_sql :: "string \<Rightarrow> nat option" where
  \<comment> \<open>\<open>/['";\\]/\<close>\<close>
  "match_sql s = (case s of [] \<Rightarrow> None | c # cs \<Rightarrow>
     if c = CHR 0x27 \<or> c = CHR 0x22 \<or> c = CHR '';'' \<or> c = CHR 0x5C then Some 1 else None)"

subsection \<open>Numbers in template literals\<close>

fun show_nat :: "nat \<Rightarrow> string" where
  \<comment> \<open>a non-negative integer in decimal, as \<open>`${n}`\<close> prints it\<close>
  "show_nat n = (if n < 10 then [''0123456789'' ! n]
                 else show_nat (n div 10) @ [''0123456789'' ! (n mod 10)])"

declare show_nat.simps [simp del]

definition show_seconds :: "nat \<Rightarrow> string" where
  \<comment> \<open>\<open>`${window / 1000}`\<close> for a whole number of milliseconds below \<open>10^15\<close>: the
      quotient in decimal, at most three fractional digits, trailing zeros dropped\<close>
  "show_seconds w =
     (let f = w mod 1000;
          digits = [''0123456789'' ! (f div 100), ''0123456789'' ! (f div 10 mod 10), ''0123456789'' ! (f mod 10)];
          frac = rev (dropWhile (\<lambda>c. c = CHR ''0'') (rev digits))
      in show_nat (w div 1000) @ (if frac = [] then [] else ''.'' @ frac))"

section \<open>Guardrails (src/guardrails/policies.js)\<close>

text \<open>\<open>{ requests: 100, window: 60000 }\<close>: a count and a number of milliseconds.\<close>

record rate_limit =
  requests :: nat
  window :: nat

record content_moderation =
  blockExplicit :: bool
  blockViolence :: bool
  blockHateSpeech :: bool

record response_policies =
  noMedicalDiagnosis :: bool
  noLegalAdvice :: bool
  noFinancialAdvice :: bool
  citeSources :: bool

record policies =
  policy_blockedTerms :: "string list"
  policy_sensitiveTopics :: "string list"
  contentModeration :: "content_moderation option"
  responsePolicies :: "response_policies option"

record guardrails_config =
  cfg_enabled :: "bool option"
  cfg_blockedTerms :: "string list option"
  cfg_sensitiveTopics :: "string list option"
  cfg_maxQueryLength :: "nat option"
  cfg_maxResponseLength :: "nat option"
  cfg_rateLimit :: "rate_limit option"
  cfg_policies :: "policies option"

text \<open>
  The fields of a \<open>Guardrails\<close> instance. \<open>requestCounts\<close> is the \<open>Map\<close> from user id
  to the list of recorded request times (milliseconds, \<open>Date.now()\<close>).
\<close>

record guardrails =
  enabled :: bool
  blockedTerms :: "string list"
  sensitiveTopics :: "string list"
  maxQueryLength :: nat
  maxResponseLength :: nat
  rateLimit :: "rate_limit option"
  requestCounts :: "string \<rightharpoonup> int list"
  policies :: policies

record warnings =
  warn_sensitiveTopics :: "string list"
  message :: string

text \<open>
  The object \<open>validateQuery\<close>, \<open>validateResponse\<close> and \<open>validateDocument\<close> return; a key
  the source leaves out is \<open>None\<close>.
\<close>

record validation =
  allowed :: bool
  reason :: "string option"
  sanitized :: "string option"
  warnings :: "warnings option"

definition getDefaultPolicies :: policies where
  "getDefaultPolicies =
     \<lparr> policy_blockedTerms =
         [''hack'', ''exploit'', ''malware'', ''virus'', ''phishing'',
          ''illegal'', ''unlawful'', ''harmful'', ''dangerous''],
       policy_sensitiveTopics =
         [''medical advice'', ''legal advice'', ''financial advice'',
          ''personal information'', ''private data''],
       contentModeration =
         Some \<lparr> blockExplicit = True, blockViolence = True, blockHateSpeech = True \<rparr>,
       responsePolicies =
         Some \<lparr> noMedicalDiagnosis = True, noLegalAdvice = True,
                noFinancialAdvice = True, citeSources = True \<rparr> \<rparr>"

definition or_default :: "nat option \<Rightarrow> nat \<Rightarrow> nat" where
  \<comment> \<open>\<open>x || d\<close> on a number: \<open>undefined\<close> and \<open>0\<close> are falsy\<close>
  "or_default x d = (case x of None \<Rightarrow> d | Some n \<Rightarrow> if n = 0 then d else n)"

definition new_Guardrails :: "guardrails_config \<Rightarrow> guardrails" where
  \<comment> \<open>the constructor; the blocked terms and sensitive topics come from the configuration
      alone, the default policies go to \<open>policies\<close>\<close>
  "new_Guardrails config =
     \<lparr> enabled = (case cfg_enabled config of None \<Rightarrow> True | Some b \<Rightarrow> b),
       blockedTerms = (case cfg_blockedTerms config of None \<Rightarrow> [] | Some ts \<Rightarrow> ts),
       sensitiveTopics = (case cfg_sensitiveTopics config of None \<Rightarrow> [] | Some ts \<Rightarrow> ts),
       maxQueryLength = or_default (cfg_maxQueryLength config) 2000,
       maxResponseLength = or_default (cfg_maxResponseLength config) 10000,
       rateLimit = cfg_rateLimit config,
       requestCounts = Map.empty,
       policies = (case cfg_policies config of None \<Rightarrow> getDefaultPolicies | Some p \<Rightarrow> p) \<rparr>"

definition default_config :: guardrails_config where
  \<comment> \<open>\<open>new Guardrails()\<close>: the configuration \<open>{}\<close>\<close>
  "default_config =
     \<lparr> cfg_enabled = None, cfg_blockedTerms = None, cfg_sensitiveTopics = None,
       cfg_maxQueryLength = None, cfg_maxResponseLength = None, cfg_rateLimit = None,
       cfg_policies = None \<rparr>"

definition sanitizeInput :: "string \<Rightarrow> string" where
  "sanitizeInput text =
     (if text = [] then []
      else trim
        (replace_all match_spaces '' ''
          (replace_all match_sql []
            (replace_all match_handler []
              (replace_all (match_literal_ci ''javascript:'') []
                (replace_all match_script [] text))))))"

definition sanitizeOutput :: "string \<Rightarrow> string" where
  "sanitizeOutput text =
     (if text = [] then []
      else trim
        (replace_all (match_literal ''&lt;/em&gt;'') ''</em>''
          (replace_all (match_literal ''&lt;em&gt;'') ''<em>''
            (replace_all (match_literal ''&lt;/strong&gt;'') ''</strong>''
              (replace_all (match_literal ''&lt;strong&gt;'') ''<strong>''
                (replace_all (match_literal ''&lt;br&gt;'') ''<br>''
                  (replace_all (match_literal ''>'') ''&gt;''
                    (replace_all (match_literal ''<'') ''&lt;''
                      (replace_all match_handler []
                        (replace_all match_script [] text))))))))))"

definition query_too_long_reason :: "nat \<Rightarrow> string" where
  "query_too_long_reason n = ''Query exceeds maximum length of '' @ show_nat n @ '' characters''"

definition rate_limit_reason :: "rate_limit \<Rightarrow> string" where
  "rate_limit_reason rl =
     ''Rate limit exceeded. Maximum '' @ show_nat (requests rl) @ '' requests per ''
       @ show_seconds (window rl) @ '' seconds''"

definition response_too_long_reason :: "nat \<Rightarrow> string" where
  "response_too_long_reason n = ''Response exceeds maximum length of '' @ show_nat n @ '' characters''"

definition sensitive_message :: string where
  "sensitive_message =
     ''This query may involve sensitive topics. Responses are for informational purposes only.''"

definition userId_of :: "string option \<Rightarrow> string" where
  \<comment> \<open>the default parameter \<open>userId = 'default'\<close>\<close>
  "userId_of uid = (case uid of None \<Rightarrow> ''default'' | Some u \<Rightarrow> u)"

definition userRequests_of :: "guardrails \<Rightarrow> string \<Rightarrow> int list" where
  \<comment> \<open>\<open>this.requestCounts.get(userId) || []\<close>\<close>
  "userRequests_of g userId = (case requestCounts g userId of None \<Rightarrow> [] | Some ts \<Rightarrow> ts)"

definition recentRequests_of :: "guardrails \<Rightarrow> rate_limit \<Rightarrow> string \<Rightarrow> int \<Rightarrow> int list" where
  \<comment> \<open>\<open>userRequests.filter(time => now - time < this.rateLimit.window)\<close>\<close>
  "recentRequests_of g rl userId now =
     filter (\<lambda>time. now - time < int (window rl)) (userRequests_of g userId)"

text \<open>
  \<open>validateQuery(query, userId = 'default')\<close>. The clock \<open>Date.now()\<close> is the argument
  \<open>now\<close>; the instance is passed in and returned, since an admitted request is recorded
  in \<open>requestCounts\<close>.
\<close>

definition validateQuery ::
  "guardrails \<Rightarrow> string \<Rightarrow> string option \<Rightarrow> int \<Rightarrow> validation \<times> guardrails" where
  "validateQuery g q uid now =
     (let userId = userId_of uid in
      if \<not> enabled g then
        (\<lparr> allowed = True, reason = None, sanitized = Some q, warnings = None \<rparr>, g)
      else if length q > maxQueryLength g then
        (\<lparr> allowed = False, reason = Some (query_too_long_reason (maxQueryLength g)),
           sanitized = None, warnings = None \<rparr>, g)
      else
        let limited =
              (case rateLimit g of
                 None \<Rightarrow> Inr g
               | Some rl \<Rightarrow>
                   let recentRequests = recentRequests_of g rl userId now
                   in if length recentRequests \<ge> requests rl then Inl (rate_limit_reason rl)
                      else Inr (g\<lparr> requestCounts := (requestCounts g)(userId \<mapsto> recentRequests @ [now]) \<rparr>))
        in case limited of
             Inl why \<Rightarrow>
               (\<lparr> allowed = False, reason = Some why, sanitized = None, warnings = None \<rparr>, g)
           | Inr g' \<Rightarrow>
               let sanitized' = sanitizeInput q;
                   lowerQuery = toLowerCase sanitized'
               in if list_ex (\<lambda>term. includes_str lowerQuery (toLowerCase term)) (blockedTerms g) then
                    (\<lparr> allowed = False, reason = Some ''Query contains blocked content'',
                       sanitized = Some sanitized', warnings = None \<rparr>, g')
                  else
                    let sensitiveFound =
                          filter (\<lambda>topic. includes_str lowerQuery (toLowerCase topic)) (sensitiveTopics g)
                    in (\<lparr> allowed = True, reason = None, sanitized = Some sanitized',
                          warnings = (if length sensitiveFound > 0
                                      then Some \<lparr> warn_sensitiveTopics = sensitiveFound,
                                                  message = sensitive_message \<rparr>
                                      else None) \<rparr>, g'))"

text \<open>A sequence of calls on one instance, each with its query, user id and clock.\<close>

fun validateQuery_calls ::
  "guardrails \<Rightarrow> (string \<times> string option \<times> int) list \<Rightarrow> validation list \<times> guardrails" where
  "validateQuery_calls g [] = ([], g)"
| "validateQuery_calls g ((q, uid, now) # calls) =
     (let (v, g') = validateQuery g q uid now;
          (vs, g'') = validateQuery_calls g' calls
      in (v # vs, g''))"

definition checkContentModeration :: "content_moderation \<Rightarrow> string \<Rightarrow> validation" where
  "checkContentModeration cm text =
     (let lowerText = toLowerCase text in
      if blockExplicit cm \<and>
         list_ex (\<lambda>term. includes_str lowerText term) [''explicit'', ''nsfw'', ''adult content'']
      then \<lparr> allowed = False, reason = Some ''Response contains inappropriate content'',
             sanitized = None, warnings = None \<rparr>
      else if blockViolence cm \<and>
         list_ex (\<lambda>term. includes_str lowerText term \<and> length lowerText < 500)
           [''kill'', ''murder'', ''violence'', ''harm'', ''attack'']
      then \<lparr> allowed = False, reason = Some ''Response may contain violent content'',
             sanitized = None, warnings = None \<rparr>
      else \<lparr> allowed = True, reason = None, sanitized = None, warnings = None \<rparr>)"

definition validateResponse :: "guardrails \<Rightarrow> string \<Rightarrow> validation" where
  "validateResponse g response =
     (if \<not> enabled g then
        \<lparr> allowed = True, reason = None, sanitized = Some response, warnings = None \<rparr>
      else if length response > maxResponseLength g then
        \<lparr> allowed = False, reason = Some (response_too_long_reason (maxResponseLength g)),
          sanitized = None, warnings = None \<rparr>
      else
        let sanitized' = sanitizeOutput response;
            checks = (case contentModeration (policies g) of
                        None \<Rightarrow> \<lparr> allowed = True, reason = None, sanitized = None, warnings = None \<rparr>
                      | Some cm \<Rightarrow> checkContentModeration cm sanitized')
        in if \<not> allowed checks then
             \<lparr> allowed = False, reason = reason checks, sanitized = Some sanitized', warnings = None \<rparr>
           else
             \<lparr> allowed = True, reason = None, sanitized = Some sanitized', warnings = None \<rparr>)"

definition warning_sign :: string where
  \<comment> \<open>the warning emoji that opens each disclaimer, in its UTF-8 bytes\<close>
  "warning_sign = [CHR 0xE2, CHR 0x9A, CHR 0xA0, CHR 0xEF, CHR 0xB8, CHR 0x8F]"

definition join_lines :: "string list \<Rightarrow> string" where
  \<comment> \<open>\<open>lines.join('\n')\<close>\<close>
  "join_lines ls = (case ls of [] \<Rightarrow> [] | l # rest \<Rightarrow> l @ concat (map (\<lambda>x. CHR 0x0A # x) rest))"

definition applyResponsePolicies :: "guardrails \<Rightarrow> string \<Rightarrow> string \<Rightarrow> string" where
  "applyResponsePolicies g response q =
     (case responsePolicies (policies g) of
        None \<Rightarrow> response
      | Some rp \<Rightarrow>
          let lowerQuery = toLowerCase q;
              medical =
                (if noMedicalDiagnosis rp \<and>
                    (includes_str lowerQuery ''symptom'' \<or> includes_str lowerQuery ''diagnosis'' \<or>
                     includes_str lowerQuery ''treatment'' \<or> includes_str lowerQuery ''medical'')
                 then [warning_sign @ '' This is not medical advice. Consult a healthcare professional for medical concerns.'']
                 else []);
              legal =
                (if noLegalAdvice rp \<and>
                    (includes_str lowerQuery ''legal'' \<or> includes_str lowerQuery ''law'' \<or>
                     includes_str lowerQuery ''lawsuit'' \<or> includes_str lowerQuery ''attorney'')
                 then [warning_sign @ '' This is not legal advice. Consult a qualified attorney for legal matters.'']
                 else []);
              financial =
                (if noFinancialAdvice rp \<and>
                    (includes_str lowerQuery ''investment'' \<or> includes_str lowerQuery ''stock'' \<or>
                     includes_str lowerQuery ''financial'' \<or> includes_str lowerQuery ''trading'')
                 then [warning_sign @ '' This is not financial advice. Consult a financial advisor for investment decisions.'']
                 else []);
              disclaimers = medical @ legal @ financial
          in if length disclaimers > 0
             then response @ [CHR 0x0A, CHR 0x0A] @ join_lines disclaimers
             else response)"

definition validateDocument :: "guardrails \<Rightarrow> string \<Rightarrow> validation" where
  "validateDocument g text =
     (if \<not> enabled g then
        \<lparr> allowed = True, reason = None, sanitized = None, warnings = None \<rparr>
      else
        let lowerContent = toLowerCase text in
        if list_ex (\<lambda>term. includes_str lowerContent (toLowerCase term)) (blockedTerms g) then
          \<lparr> allowed = False, reason = Some ''Document contains blocked content'',
            sanitized = None, warnings = None \<rparr>
        else \<lparr> allowed = True, reason = None, sanitized = None, warnings = None \<rparr>)"


section \<open>The RAG engine (class RAGEngine, src/server.js)\<close>

text \<open>
  Scores are JavaScript numbers; they are modelled as real numbers, so \<open>NaN\<close> and
  rounding are outside the model. An exception is a value of \<open>error\<close>.
\<close>

datatype error =
    NotInitialized  \<comment> \<open>\<open>RAG engine not initialized. Call initialize() first.\<close>\<close>
  | TypeError       \<comment> \<open>a property read on \<open>undefined\<close>\<close>

record document =
  doc_id :: string
  content :: string
  metadata :: "(string \<times> string) list"

record vector_entry = document +
  vector :: "real list"

record retrieval_result = document +
  score :: real

record source_entry = retrieval_result +
  preview :: string

text \<open>
  The DataSource capability (its base class is not among the sources): the documents it
  holds and its native search.
\<close>

record datasource =
  documents :: "document list"
  search :: "string \<Rightarrow> nat \<Rightarrow> retrieval_result list"

definition getDocuments :: "datasource \<Rightarrow> document list" where
  "getDocuments ds = documents ds"

definition loadDocuments :: "datasource \<Rightarrow> document list \<Rightarrow> datasource" where
  \<comment> \<open>reloading replaces the documents by what the backing store holds now\<close>
  "loadDocuments ds stored = ds\<lparr> documents := stored \<rparr>"

text \<open>
  The Embeddings capability (its class is not among the sources). The vectoriser and the
  similarity measure are parameters; the vocabulary is the corpus it was last built from.
\<close>

record embeddings =
  vocabulary :: "string list"
  embed_with :: "string list \<Rightarrow> string \<Rightarrow> real list"
  cosineSimilarity :: "real list \<Rightarrow> real list \<Rightarrow> real"

definition embed :: "embeddings \<Rightarrow> string \<Rightarrow> real list" where
  "embed emb text = embed_with emb (vocabulary emb) text"

definition buildVocabulary :: "embeddings \<Rightarrow> string list \<Rightarrow> embeddings" where
  "buildVocabulary emb texts = emb\<lparr> vocabulary := texts \<rparr>"

text \<open>
  Modelled from the spec: \<open>findSimilar\<close> of the Embeddings class, which is not among the
  sources. The spec: ``\<open>findSimilar(queryVector, candidates, k)\<close> ranks candidates by cosine
  similarity descending and returns \<open>k\<close> \<open>{id, score}\<close> pairs; ties broken by candidate
  order.'' The sort is stable, and fewer than \<open>k\<close> candidates are all returned.
\<close>

definition findSimilar ::
  "embeddings \<Rightarrow> real list \<Rightarrow> vector_entry list \<Rightarrow> nat \<Rightarrow> (string \<times> real) list" where
  "findSimilar emb queryVector docs k =
     take k (sort_key (\<lambda>(i, s). - s)
       (map (\<lambda>d. (doc_id d, cosineSimilarity emb queryVector (vector d))) docs))"

record gen_options =
  history :: "(string \<times> string) list option"
  systemPrompt :: "string option"
  temperature :: "real option"

text \<open>The generation backend: what it answers to a call.\<close>

record llm =
  model :: string
  generateResponse :: "string \<Rightarrow> retrieval_result list \<Rightarrow> gen_options \<Rightarrow> string"

text \<open>
  The fields of a \<open>RAGEngine\<close>. \<open>documentVectors\<close> is a \<open>Map\<close>, kept in insertion order
  as its \<open>values()\<close> are read. \<open>llm_calls\<close> is not a field of the source: it logs the
  calls made to \<open>generateResponse\<close>, so that making no call can be stated.
\<close>

record engine =
  dataSource :: datasource
  llm :: llm
  embeddings :: "embeddings option"
  guardrails :: "guardrails option"
  topK :: nat
  similarityThreshold :: real
  smartRouting :: bool
  routingThreshold :: real
  documentVectors :: "(string \<times> vector_entry) list"
  initialized :: bool
  llm_calls :: "(string \<times> retrieval_result list \<times> gen_options) list"

definition buildVectorIndex :: "engine \<Rightarrow> error + engine" where
  \<comment> \<open>every document of the data source is embedded and \<open>set\<close> under its id; nothing
      is removed from the map\<close>
  "buildVectorIndex e =
     (case embeddings e of
        None \<Rightarrow> Inl TypeError
      | Some emb \<Rightarrow>
          Inr (e\<lparr> documentVectors :=
            fold (\<lambda>doc idx. AList.update (doc_id doc)
                    \<lparr> doc_id = doc_id doc, content = content doc, metadata = metadata doc,
                      vector = embed emb (content doc) \<rparr> idx)
                 (getDocuments (dataSource e)) (documentVectors e) \<rparr>))"

definition refresh :: "engine \<Rightarrow> document list \<Rightarrow> error + engine" where
  \<comment> \<open>\<open>stored\<close> is what the data source finds in its backing store when it reloads\<close>
  "refresh e stored =
     (let e1 = e\<lparr> dataSource := loadDocuments (dataSource e) stored \<rparr> in
      case embeddings e1 of
        None \<Rightarrow> Inr e1
      | Some emb \<Rightarrow>
          let docs = getDocuments (dataSource e1);
              texts = map content docs
          in buildVectorIndex (e1\<lparr> embeddings := Some (buildVocabulary emb texts) \<rparr>))"

text \<open>
  The two loops of \<open>retrieveByVector\<close> push one result for each similarity they accept;
  \<open>documentVectors.get(id)\<close> of an absent id is \<open>undefined\<close>, and reading its \<open>id\<close> throws.
\<close>

fun push_results ::
  "(real \<Rightarrow> nat \<Rightarrow> bool) \<Rightarrow> (string \<times> vector_entry) list \<Rightarrow> (string \<times> real) list \<Rightarrow>
   retrieval_result list \<Rightarrow> error + retrieval_result list" where
  "push_results accept idx [] results = Inr results"
| "push_results accept idx ((i, s) # similarities) results =
     (if accept s (length results) then
        (case map_of idx i of
           None \<Rightarrow> Inl TypeError
         | Some doc \<Rightarrow>
             push_results accept idx similarities
               (results @ [\<lparr> doc_id = doc_id doc, content = content doc,
                              metadata = metadata doc, score = s \<rparr>]))
      else push_results accept idx similarities results)"

definition retrieveByVector ::
  "engine \<Rightarrow> embeddings \<Rightarrow> string \<Rightarrow> nat \<Rightarrow> error + retrieval_result list" where
  "retrieveByVector e emb q k =
     (let queryVector = embed emb q;
          docs = map snd (documentVectors e);
          similarities = findSimilar emb queryVector docs (k * 2)
      in case push_results (\<lambda>s n. s \<ge> similarityThreshold e \<and> n < k)
                (documentVectors e) similarities [] of
           Inl err \<Rightarrow> Inl err
         | Inr results \<Rightarrow>
             if length results = 0 \<and> length similarities > 0
             then push_results (\<lambda>s n. True) (documentVectors e) (take k similarities) results
             else Inr results)"

definition retrieve :: "engine \<Rightarrow> string \<Rightarrow> nat \<Rightarrow> error + retrieval_result list" where
  "retrieve e q k =
     (case embeddings e of
        Some emb \<Rightarrow>
          if length (documentVectors e) > 0 then retrieveByVector e emb q k
          else Inr (search (dataSource e) q k)
      | None \<Rightarrow> Inr (search (dataSource e) q k))"

definition top_score :: "retrieval_result list \<Rightarrow> real" where
  \<comment> \<open>\<open>retrievedDocs[0]?.score || 0\<close>\<close>
  "top_score docs = (case docs of [] \<Rightarrow> 0 | d # ds \<Rightarrow> score d)"

definition mean_score :: "retrieval_result list \<Rightarrow> real" where
  \<comment> \<open>\<open>retrievedDocs.reduce((sum, d) => sum + d.score, 0) / retrievedDocs.length\<close>\<close>
  "mean_score docs = fold (\<lambda>d sum. sum + score d) docs 0 / real (length docs)"

record routing_decision =
  useRAG :: bool
  route_reason :: string
  route_topScore :: "real option"
  route_avgScore :: "real option"
  route_docs :: "retrieval_result list"

definition routeQuery :: "engine \<Rightarrow> string \<Rightarrow> error + routing_decision" where
  "routeQuery e q =
     (case retrieve e q (topK e) of
        Inl err \<Rightarrow> Inl err
      | Inr retrievedDocs \<Rightarrow>
          if length retrievedDocs = 0 then
            Inr \<lparr> useRAG = False, route_reason = ''no_documents'', route_topScore = None,
                  route_avgScore = None, route_docs = [] \<rparr>
          else
            let topScore = top_score retrievedDocs;
                avgScore = mean_score retrievedDocs
            in if topScore < routingThreshold e then
                 Inr \<lparr> useRAG = False, route_reason = ''low_relevance'', route_topScore = Some topScore,
                       route_avgScore = Some avgScore, route_docs = retrievedDocs \<rparr>
               else
                 Inr \<lparr> useRAG = True, route_reason = ''relevant_content'', route_topScore = Some topScore,
                       route_avgScore = Some avgScore, route_docs = retrievedDocs \<rparr>)"

subsection \<open>The orchestrator\<close>

record query_options =
  opt_topK :: "nat option"
  opt_mode :: "string option"
  opt_systemPrompt :: "string option"
  opt_userId :: "string option"
  opt_history :: "(string \<times> string) list option"
  opt_temperature :: "real option"

record routing_info =
  topScore :: real
  avgScore :: real
  docCount :: nat

text \<open>
  The object \<open>query\<close> returns. The blocked result has no \<open>warnings\<close> key and the others no
  \<open>blocked\<close> and \<open>reason\<close> keys: an absent \<open>blocked\<close> is \<open>False\<close>, the other two \<open>None\<close>.
\<close>

record query_result =
  res_answer :: string
  res_sources :: "source_entry list"
  res_query :: string
  res_mode :: string
  res_routing :: "routing_info option"
  res_blocked :: bool
  res_reason :: "string option"
  res_warnings :: "warnings option"

definition getDirectLLMPrompt :: string where
  "getDirectLLMPrompt =
     ''You are a helpful AI assistant. Answer the user's question to the best of your knowledge.'' @ [CHR 0x0A] @
     ''If you don't know something, say so. Be concise and accurate.''"

definition getHybridPrompt :: string where
  "getHybridPrompt = concat (map (\<lambda>l. l @ [CHR 0x0A])
     [''You are a knowledgeable AI assistant. You MUST follow this EXACT response format:'',
      [],
      ''**REQUIRED FORMAT:**'',
      [],
      ''From your data:'',
      ''[Quote relevant information from the provided context. Use quotation marks for direct quotes. Cite the source if available.]'',
      [],
      ''Additional information:'',
      ''[Add your own knowledge to expand on the topic. Provide useful context, examples, or explanations that go beyond what's in the data.]'',
      [],
      ''**RULES:**'',
      ''- ALWAYS use both sections '' @ [CHR 0x22] @ ''From your data:'' @ [CHR 0x22] @ '' and '' @ [CHR 0x22] @ ''Additional information:'' @ [CHR 0x22] @ '' in your response'',
      ''- The '' @ [CHR 0x22] @ ''From your data:'' @ [CHR 0x22] @ '' section MUST contain quotes or paraphrased content from the context provided'',
      ''- The '' @ [CHR 0x22] @ ''Additional information:'' @ [CHR 0x22] @ '' section MUST add value beyond just the context'',
      ''- If the context is not relevant, say '' @ [CHR 0x22] @ ''No directly relevant information found in your data'' @ [CHR 0x22] @ '' then provide general knowledge''])
     @ ''- Be comprehensive and helpful''"

definition requested_mode :: "query_options \<Rightarrow> string" where
  \<comment> \<open>\<open>options.mode || 'hybrid'\<close>\<close>
  "requested_mode options =
     (case opt_mode options of None \<Rightarrow> ''hybrid'' | Some m \<Rightarrow> if m = [] then ''hybrid'' else m)"

definition routingInfo_of :: "retrieval_result list \<Rightarrow> routing_info" where
  "routingInfo_of retrievedDocs =
     \<lparr> topScore = top_score retrievedDocs,
       avgScore = (if length retrievedDocs > 0 then mean_score retrievedDocs else 0),
       docCount = length retrievedDocs \<rparr>"

definition mode_prompt ::
  "engine \<Rightarrow> string \<Rightarrow> routing_info option \<Rightarrow> retrieval_result list \<Rightarrow>
   string option \<times> retrieval_result list \<times> string" where
  \<comment> \<open>the \<open>switch (mode)\<close>: the prompt, the retrieved documents and the mode behind it\<close>
  "mode_prompt e mode routingInfo retrievedDocs =
     (if mode = ''hybrid'' then (Some getHybridPrompt, retrievedDocs, mode)
      else if mode = ''rag'' then (None, retrievedDocs, mode)
      else if mode = ''llm'' then (Some getDirectLLMPrompt, [], mode)
      else (case routingInfo of
              Some ri \<Rightarrow>
                if topScore ri \<ge> routingThreshold e then (Some getHybridPrompt, retrievedDocs, ''hybrid'')
                else (Some getDirectLLMPrompt, retrievedDocs, ''llm'')
            | None \<Rightarrow> (Some getDirectLLMPrompt, retrievedDocs, ''llm'')))"

definition select_prompt ::
  "engine \<Rightarrow> query_options \<Rightarrow> string \<Rightarrow> routing_info option \<Rightarrow> retrieval_result list \<Rightarrow>
   string option \<times> retrieval_result list \<times> string" where
  \<comment> \<open>\<open>if (!systemPrompt) switch (mode) ...\<close>: a prompt of the caller's is used as it is\<close>
  "select_prompt e options mode routingInfo retrievedDocs =
     (case opt_systemPrompt options of
        None \<Rightarrow> mode_prompt e mode routingInfo retrievedDocs
      | Some p \<Rightarrow>
          if p = [] then mode_prompt e mode routingInfo retrievedDocs
          else (Some p, retrievedDocs, mode))"

definition or_query :: "string option \<Rightarrow> string \<Rightarrow> string" where
  \<comment> \<open>\<open>validation.sanitized || query\<close>: \<open>undefined\<close> and the empty string are falsy\<close>
  "or_query s q = (case s of None \<Rightarrow> q | Some t \<Rightarrow> if t = [] then q else t)"

definition reason_text :: "string option \<Rightarrow> string" where
  \<comment> \<open>\<open>`${validation.reason}`\<close>\<close>
  "reason_text r = (case r of None \<Rightarrow> ''undefined'' | Some t \<Rightarrow> t)"

definition to_source :: "retrieval_result \<Rightarrow> source_entry" where
  "to_source doc =
     \<lparr> doc_id = doc_id doc, content = content doc, metadata = metadata doc, score = score doc,
       preview = take 200 (content doc) @ (if length (content doc) > 200 then ''...'' else []) \<rparr>"

definition retrieve_step ::
  "engine \<Rightarrow> string \<Rightarrow> query_options \<Rightarrow> error + (retrieval_result list \<times> routing_info option)" where
  \<comment> \<open>the start of \<open>query\<close>: the documents are retrieved first, except in the mode \<open>llm\<close>\<close>
  "retrieve_step e q options =
     (let k = or_default (opt_topK options) (topK e) in
      if requested_mode options \<noteq> ''llm''
      then (case retrieve e q k of
              Inl err \<Rightarrow> Inl err
            | Inr docs \<Rightarrow> Inr (docs, Some (routingInfo_of docs)))
      else Inr ([], None))"

definition validate_step :: "engine \<Rightarrow> string \<Rightarrow> query_options \<Rightarrow> int \<Rightarrow> validation \<times> guardrails option" where
  \<comment> \<open>\<open>validation = { allowed: true, sanitized: query }\<close>, or what the guardrails say\<close>
  "validate_step e q options now =
     (case guardrails e of
        None \<Rightarrow> (\<lparr> allowed = True, reason = None, sanitized = Some q, warnings = None \<rparr>, None)
      | Some g \<Rightarrow> (let (v, g') = validateQuery g q (opt_userId options) now in (v, Some g')))"

definition final_answer :: "guardrails option \<Rightarrow> string \<Rightarrow> string \<Rightarrow> string" where
  \<comment> \<open>the guardrails applied to the response; an allowed validation always carries
      \<open>sanitized\<close>\<close>
  "final_answer gs answer q1 =
     (case gs of
        None \<Rightarrow> answer
      | Some g \<Rightarrow>
          let responseValidation = validateResponse g answer in
          if \<not> allowed responseValidation then
            ''Response blocked: '' @ reason_text (reason responseValidation)
          else
            applyResponsePolicies g
              (case sanitized responseValidation of None \<Rightarrow> [] | Some t \<Rightarrow> t) q1)"

text \<open>
  \<open>query(query, options)\<close>. The clock read by \<open>validateQuery\<close> is the argument \<open>now\<close>.
  The engine is returned with what the call changed: the request times of the guardrails
  and the log of generation calls.
\<close>

definition query ::
  "engine \<Rightarrow> string \<Rightarrow> query_options \<Rightarrow> int \<Rightarrow> error + (query_result \<times> engine)" where
  "query e q options now =
     (if \<not> initialized e then Inl NotInitialized
      else
        case retrieve_step e q options of
          Inl err \<Rightarrow> Inl err
        | Inr (retrieved, routingInfo) \<Rightarrow>
            let (systemPrompt', retrievedDocs, mode) =
                  select_prompt e options (requested_mode options) routingInfo retrieved;
                (validation, gs) = validate_step e q options now;
                e1 = e\<lparr> guardrails := gs \<rparr>
            in if \<not> allowed validation then
                 Inr (\<lparr> res_answer = ''I cannot process this query: '' @ reason_text (reason validation),
                        res_sources = [],
                        res_query = or_query (sanitized validation) q,
                        res_mode = mode,
                        res_routing = routingInfo,
                        res_blocked = True,
                        res_reason = reason validation,
                        res_warnings = None \<rparr>, e1)
               else
                 let q1 = (case gs of None \<Rightarrow> q
                           | Some g \<Rightarrow> (case sanitized validation of None \<Rightarrow> q | Some t \<Rightarrow> t));
                     filteredDocs =
                       (case gs of None \<Rightarrow> retrievedDocs
                        | Some g \<Rightarrow> filter (\<lambda>doc. allowed (validateDocument g (content doc))) retrievedDocs);
                     context = (if mode = ''llm'' then [] else filteredDocs);
                     gen = \<lparr> history = opt_history options, systemPrompt = systemPrompt',
                             temperature = opt_temperature options \<rparr>;
                     answer = generateResponse (llm e) q1 context gen;
                     e2 = e1\<lparr> llm_calls := llm_calls e1 @ [(q1, context, gen)] \<rparr>
                 in Inr (\<lparr> res_answer = final_answer gs answer q1,
                           res_sources = map to_source filteredDocs,
                           res_query = or_query (sanitized validation) q1,
                           res_mode = mode,
                           res_routing = routingInfo,
                           res_blocked = False,
                           res_reason = None,
                           res_warnings = warnings validation \<rparr>, e2))"

section \<open>Well-formed states\<close>

definition index_wf :: "(string \<times> vector_entry) list \<Rightarrow> bool" where
  \<comment> \<open>what a \<open>Map\<close> filled by \<open>documentVectors.set(doc.id, {...doc, vector})\<close> is: one
      entry for a key, each under the id it carries\<close>
  "index_wf idx = (distinct (map fst idx) \<and> list_all (\<lambda>(i, d). doc_id d = i) idx)"

definition ranked :: "retrieval_result list \<Rightarrow> bool" where
  \<comment> \<open>ordered by score, non-increasing\<close>
  "ranked rs = sorted_wrt (\<lambda>a b. score a \<ge> score b) rs"







section \<open>Example configurations\<close>

definition doc1 :: document where
  "doc1 = \<lparr> doc_id = ''doc1'', content = ''Machine Learning'', metadata = [] \<rparr>"

definition doc2 :: document where
  "doc2 = \<lparr> doc_id = ''doc2'', content = ''Deep Learning'', metadata = [] \<rparr>"

definition doc3 :: document where
  "doc3 = \<lparr> doc_id = ''doc3'', content = ''NLP'', metadata = [] \<rparr>"

definition demo_embeddings :: embeddings where
  \<comment> \<open>a text is embedded as its length; texts of nearer lengths are more similar\<close>
  "demo_embeddings =
     \<lparr> vocabulary = [],
       embed_with = (\<lambda>vocab text. [real (length text)]),
       cosineSimilarity = (\<lambda>a b. 1 / (1 + \<bar>sum_list a - sum_list b\<bar>)) \<rparr>"

definition demo_llm :: llm where
  "demo_llm = \<lparr> model = ''demo'', generateResponse = (\<lambda>q docs opts. ''An answer.'') \<rparr>"

definition demo_engine :: engine where
  \<comment> \<open>an initialised engine over three documents, no guardrails, its index not built yet\<close>
  "demo_engine =
     \<lparr> dataSource = \<lparr> documents = [doc1, doc2, doc3], search = (\<lambda>q limit. []) \<rparr>,
       llm = demo_llm,
       embeddings = Some demo_embeddings,
       guardrails = None,
       topK = 10,
       similarityThreshold = 0.15,
       smartRouting = True,
       routingThreshold = 0.25,
       documentVectors = [],
       initialized = True,
       llm_calls = [] \<rparr>"

definition demo_guardrails :: guardrails where
  \<comment> \<open>\<open>malware\<close> blocked, two requests a second\<close>
  "demo_guardrails =
     new_Guardrails (default_config\<lparr> cfg_blockedTerms := Some [''malware''],
                                     cfg_rateLimit := Some \<lparr> requests = 2, window = 1000 \<rparr> \<rparr>)"

definition default_options :: query_options where
  \<comment> \<open>\<open>query(q)\<close> with no options\<close>
  "default_options = \<lparr> opt_topK = None, opt_mode = None, opt_systemPrompt = None, opt_userId = None,
                 opt_history = None, opt_temperature = None \<rparr>"

definition long_llm :: llm where
  \<comment> \<open>a backend whose response has 11,000 characters\<close>
  "long_llm = \<lparr> model = ''demo'', generateResponse = (\<lambda>q docs opts. replicate 11000 (CHR ''a'')) \<rparr>"

definition unranked_source :: datasource where
  \<comment> \<open>a data source whose search ignores the limit and returns the weaker match first\<close>
  "unranked_source =
     \<lparr> documents = [doc1, doc3],
       search = (\<lambda>q limit.
         [\<lparr> doc_id = ''doc1'', content = ''Machine Learning'', metadata = [], score = 1 \<rparr>,
          \<lparr> doc_id = ''doc3'', content = ''NLP'', metadata = [], score = 2 \<rparr>]) \<rparr>"

definition demo_index :: "(string \<times> vector_entry) list" where
  \<comment> \<open>what \<open>buildVectorIndex\<close> makes of the three documents\<close>
  "demo_index =
     [(''doc1'', \<lparr> doc_id = ''doc1'', content = ''Machine Learning'', metadata = [], vector = [16] \<rparr>),
      (''doc2'', \<lparr> doc_id = ''doc2'', content = ''Deep Learning'', metadata = [], vector = [13] \<rparr>),
      (''doc3'', \<lparr> doc_id = ''doc3'', content = ''NLP'', metadata = [], vector = [3] \<rparr>)]"

section \<open>Properties of the guardrails\<close>

lemmas string_eval =
  is_space_def is_word_def toLowerCase_char_def toLowerCase_def trim_def
  match_script_def match_literal_ci_def match_literal_def match_handler_def
  match_spaces_def match_sql_def Let_def

lemmas demo_eval =
  doc1_def doc2_def doc3_def demo_embeddings_def demo_llm_def demo_engine_def demo_index_def
  demo_guardrails_def new_Guardrails_def default_config_def or_default_def
  default_options_def

lemmas query_eval =
  query_def retrieve_step_def validate_step_def final_answer_def requested_mode_def
  retrieve_def retrieveByVector_def findSimilar_def embed_def routingInfo_of_def
  top_score_def mean_score_def select_prompt_def mode_prompt_def or_query_def
  reason_text_def to_source_def

lemmas guard_eval =
  validateQuery_def userId_of_def userRequests_of_def recentRequests_of_def sanitizeInput_def
  validateDocument_def validateResponse_def sanitizeOutput_def checkContentModeration_def
  getDefaultPolicies_def applyResponsePolicies_def

text \<open>
  C7 (sanitizeInput is idempotent) fails on the code: each replacement is a single pass, so
  removing an inner \<open>javascript:\<close> can assemble a new one from the text around it. The
  first pass returns \<open>javascript:\<close>, the token the pass is there to remove, and the
  second pass returns the empty string.
\<close>

theorem sanitizeInput_not_idempotent:
  "sanitizeInput ''javajavascript:script:'' = ''javascript:'' \<and>
   sanitizeInput (sanitizeInput ''javajavascript:script:'') = []"
  by (simp add: sanitizeInput_def string_eval)

subsection \<open>The branches of \<open>validateQuery\<close>\<close>

lemma reasons_distinct [simp]:
  "rate_limit_reason rl \<noteq> ''Query contains blocked content''"
  "query_too_long_reason n \<noteq> ''Query contains blocked content''"
  "query_too_long_reason n \<noteq> rate_limit_reason rl"
  "''Query contains blocked content'' \<noteq> rate_limit_reason rl"
  "''Query contains blocked content'' \<noteq> query_too_long_reason n"
  "rate_limit_reason rl \<noteq> query_too_long_reason n"
  by (simp_all add: rate_limit_reason_def query_too_long_reason_def)

lemma validateQuery_disabled:
  "\<not> enabled g \<Longrightarrow> validateQuery g q uid now =
     (\<lparr> allowed = True, reason = None, sanitized = Some q, warnings = None \<rparr>, g)"
  by (simp add: validateQuery_def)

lemma validateQuery_too_long:
  "enabled g \<Longrightarrow> length q > maxQueryLength g \<Longrightarrow> validateQuery g q uid now =
     (\<lparr> allowed = False, reason = Some (query_too_long_reason (maxQueryLength g)),
        sanitized = None, warnings = None \<rparr>, g)"
  by (simp add: validateQuery_def)

lemma validateQuery_limited:
  "enabled g \<Longrightarrow> length q \<le> maxQueryLength g \<Longrightarrow> rateLimit g = Some rl \<Longrightarrow>
   length (recentRequests_of g rl (userId_of uid) now) \<ge> requests rl \<Longrightarrow>
   validateQuery g q uid now =
     (\<lparr> allowed = False, reason = Some (rate_limit_reason rl), sanitized = None, warnings = None \<rparr>, g)"
  by (simp add: validateQuery_def Let_def)

lemma validateQuery_admitted:
  assumes "enabled g" "length q \<le> maxQueryLength g" "rateLimit g = Some rl"
    and "length (recentRequests_of g rl (userId_of uid) now) < requests rl"
  shows "snd (validateQuery g q uid now) =
           g\<lparr> requestCounts := (requestCounts g)
                (userId_of uid \<mapsto> recentRequests_of g rl (userId_of uid) now @ [now]) \<rparr>"
    and "reason (fst (validateQuery g q uid now)) = None \<or>
         reason (fst (validateQuery g q uid now)) = Some ''Query contains blocked content''"
    and "allowed (fst (validateQuery g q uid now)) \<longleftrightarrow> reason (fst (validateQuery g q uid now)) = None"
  using assms by (simp_all add: validateQuery_def Let_def)

lemma validateQuery_unlimited:
  assumes "enabled g" "length q \<le> maxQueryLength g" "rateLimit g = None"
  shows "snd (validateQuery g q uid now) = g"
    and "reason (fst (validateQuery g q uid now)) = None \<or>
         reason (fst (validateQuery g q uid now)) = Some ''Query contains blocked content''"
    and "allowed (fst (validateQuery g q uid now)) \<longleftrightarrow> reason (fst (validateQuery g q uid now)) = None"
  using assms by (simp_all add: validateQuery_def Let_def)

lemma rejected_enabled:
  "\<not> allowed (fst (validateQuery g q uid now)) \<Longrightarrow> enabled g"
  by (cases "enabled g") (simp_all add: validateQuery_disabled)

text \<open>
  C10: with a rate limit configured, a query rejected for a blocked term has had its time
  recorded in the user's list (it takes a slot of the window), while a query rejected for
  its length or by the limiter itself leaves the guardrails as they were.
\<close>

theorem rejection_and_recorded_times:
  assumes "rateLimit g = Some rl" and "\<not> allowed (fst (validateQuery g q uid now))"
  shows "(reason (fst (validateQuery g q uid now)) = Some ''Query contains blocked content'' \<longrightarrow>
            userRequests_of (snd (validateQuery g q uid now)) (userId_of uid) =
              recentRequests_of g rl (userId_of uid) now @ [now]) \<and>
         (reason (fst (validateQuery g q uid now)) \<noteq> Some ''Query contains blocked content'' \<longrightarrow>
            snd (validateQuery g q uid now) = g \<and>
            (reason (fst (validateQuery g q uid now)) = Some (query_too_long_reason (maxQueryLength g)) \<or>
             reason (fst (validateQuery g q uid now)) = Some (rate_limit_reason rl)))"
proof -
  have en: "enabled g" using assms(2) by (rule rejected_enabled)
  show ?thesis
  proof (cases "length q > maxQueryLength g")
    case True
    then show ?thesis using en by (simp add: validateQuery_too_long)
  next
    case False
    then have len: "length q \<le> maxQueryLength g" by simp
    show ?thesis
    proof (cases "length (recentRequests_of g rl (userId_of uid) now) \<ge> requests rl")
      case True
      then show ?thesis using en len assms(1) by (simp add: validateQuery_limited)
    next
      case False
      then have lt: "length (recentRequests_of g rl (userId_of uid) now) < requests rl" by simp
      from validateQuery_admitted[OF en len assms(1) lt] assms(2)
      show ?thesis by (auto simp: userRequests_of_def)
    qed
  qed
qed

theorem rejection_and_recorded_times_witness:
  "rateLimit demo_guardrails = Some \<lparr> requests = 2, window = 1000 \<rparr> \<and>
   reason (fst (validateQuery demo_guardrails ''about malware'' None 5)) =
     Some ''Query contains blocked content'' \<and>
   userRequests_of (snd (validateQuery demo_guardrails ''about malware'' None 5)) ''default'' = [5] \<and>
   reason (fst (validateQuery demo_guardrails (replicate 2001 CHR ''a'') None 5)) =
     Some (query_too_long_reason 2000) \<and>
   snd (validateQuery demo_guardrails (replicate 2001 CHR ''a'') None 5) = demo_guardrails"
proof -
  have rl: "rateLimit demo_guardrails = Some \<lparr> requests = 2, window = 1000 \<rparr>"
    by (simp add: demo_eval)
  have b: "\<not> allowed (fst (validateQuery demo_guardrails ''about malware'' None 5))"
    "reason (fst (validateQuery demo_guardrails ''about malware'' None 5)) =
       Some ''Query contains blocked content''"
    by (simp_all add: guard_eval demo_eval string_eval)
  have l: "\<not> allowed (fst (validateQuery demo_guardrails (replicate 2001 CHR ''a'') None 5))"
    "reason (fst (validateQuery demo_guardrails (replicate 2001 CHR ''a'') None 5)) =
       Some (query_too_long_reason 2000)"
    by (simp_all add: validateQuery_def demo_eval)
  show ?thesis
    using rejection_and_recorded_times[OF rl b(1)] rejection_and_recorded_times[OF rl l(1)] rl b l
    by (simp add: recentRequests_of_def userRequests_of_def userId_of_def demo_eval)
qed

subsection \<open>The sliding window over a sequence of calls\<close>



lemma validateQuery_calls_length:
  "length (fst (validateQuery_calls g calls)) = length calls"
  by (induction calls arbitrary: g) (auto simp: split_beta)











text \<open>
  C9 (a query that contains the term "malware" is rejected with "Query contains blocked
  content" and the orchestrator returns a blocked result) fails on the code: \<open>malware\<close>
  stands in the default policies, under the comment "Block queries containing these
  terms", but \<open>validateQuery\<close> reads only the \<open>blockedTerms\<close> of the configuration, which
  are empty by default. On \<open>new Guardrails()\<close> the query is allowed, and the orchestrator
  goes on to generation and returns the answer unblocked.
\<close>

theorem default_guardrails_allow_malware:
  "validateQuery (new_Guardrails default_config) ''What is malware?'' None 0 =
     (\<lparr> allowed = True, reason = None, sanitized = Some ''What is malware?'', warnings = None \<rparr>,
      new_Guardrails default_config) \<and>
   (\<exists>r e'. query (demo_engine\<lparr> documentVectors := demo_index,
                               guardrails := Some (new_Guardrails default_config) \<rparr>)
               ''What is malware?''
               \<lparr> opt_topK = None, opt_mode = None, opt_systemPrompt = None, opt_userId = None,
                 opt_history = None, opt_temperature = None \<rparr> 0 = Inr (r, e') \<and>
            res_blocked r = False \<and> res_answer r = ''An answer.'' \<and> length (llm_calls e') = 1)"
  by (simp add: query_eval guard_eval demo_eval string_eval)

section \<open>Properties of retrieval\<close>

lemma push_results_ranked:
  assumes "sorted_wrt (\<ge>) (map score results @ map snd sims)"
    and "push_results accept idx sims results = Inr rs"
  shows "ranked rs"
  using assms
proof (induction sims arbitrary: results)
  case Nil
  then show ?case by (simp add: ranked_def sorted_wrt_map)
next
  case (Cons p sims)
  obtain i s where p: "p = (i, s)" by (cases p) auto
  have drop: "sorted_wrt (\<ge>) (map score results @ map snd sims)"
    using Cons.prems(1) p by (auto simp: sorted_wrt_append)
  show ?case
  proof (cases "accept s (length results)")
    case False
    then show ?thesis using Cons.IH[OF drop] Cons.prems(2) p by simp
  next
    case True
    then obtain doc where doc: "map_of idx i = Some doc"
      and rest: "push_results accept idx sims
          (results @ [\<lparr> doc_id = doc_id doc, content = content doc, metadata = metadata doc, score = s \<rparr>]) = Inr rs"
      using Cons.prems(2) p by (auto split: option.splits)
    show ?thesis
      by (rule Cons.IH[OF _ rest]) (use Cons.prems(1) p in simp)
  qed
qed

lemma push_results_bounded:
  assumes "\<And>s n. accept s n \<Longrightarrow> n < k" and "length results \<le> k"
    and "push_results accept idx sims results = Inr rs"
  shows "length rs \<le> k"
  using assms(2,3)
proof (induction sims arbitrary: results)
  case Nil
  then show ?case by simp
next
  case (Cons p sims)
  obtain i s where p: "p = (i, s)" by (cases p) auto
  show ?case
  proof (cases "accept s (length results)")
    case False
    then show ?thesis using Cons p by simp
  next
    case True
    then have lt: "length results < k" by (rule assms(1))
    from True obtain doc where doc: "map_of idx i = Some doc" and
      rest: "push_results accept idx sims
          (results @ [\<lparr> doc_id = doc_id doc, content = content doc, metadata = metadata doc, score = s \<rparr>]) = Inr rs"
      using Cons.prems(2) p by (auto split: option.splits)
    show ?thesis
      by (rule Cons.IH[OF _ rest]) (use lt in simp)
  qed
qed

lemma push_results_all:
  assumes "push_results (\<lambda>s n. True) idx sims results = Inr rs"
  shows "map (\<lambda>r. (doc_id r, score r)) rs =
           map (\<lambda>r. (doc_id r, score r)) results @ map (\<lambda>(i, s). (doc_id (the (map_of idx i)), s)) sims"
  using assms
  by (induction sims arbitrary: results) (auto split: option.splits)

lemma push_results_total:
  assumes "list_all (\<lambda>(i, s). map_of idx i \<noteq> None) sims"
  shows "\<exists>rs. push_results accept idx sims results = Inr rs"
  using assms
  by (induction sims arbitrary: results) (auto split: option.splits)

lemma push_results_none:
  assumes "list_all (\<lambda>(i, s). \<not> accept s 0) sims"
  shows "push_results accept idx sims [] = Inr []"
  using assms by (induction sims) auto

lemma findSimilar_length:
  "length (findSimilar emb qv docs k) = min k (length docs)"
  by (simp add: findSimilar_def min.commute)

lemma neg_key_sorted:
  "sorted (map (\<lambda>p. - snd p) xs) \<Longrightarrow> sorted_wrt (\<ge>) (map snd (xs :: ('a \<times> real) list))"
  by (induction xs) auto

lemma findSimilar_sorted:
  "sorted_wrt (\<ge>) (map snd (findSimilar emb qv docs k))"
proof -
  let ?xs = "map (\<lambda>d. (doc_id d, cosineSimilarity emb qv (vector d))) docs"
  have eq: "(\<lambda>(i, s). - s) = (\<lambda>p :: string \<times> real. - snd p)" by (simp add: fun_eq_iff)
  have "sorted (map (\<lambda>p. - snd p) (sort_key (\<lambda>p. - snd p) ?xs))"
    by (rule sorted_sort_key)
  then have "sorted_wrt (\<ge>) (map snd (sort_key (\<lambda>p. - snd p) ?xs))"
    by (rule neg_key_sorted)
  then have "sorted_wrt (\<ge>) (take k (map snd (sort_key (\<lambda>p. - snd p) ?xs)))"
    by (rule sorted_wrt_take)
  then show ?thesis unfolding findSimilar_def eq take_map .
qed

lemma findSimilar_ids:
  "fst ` set (findSimilar emb qv docs k) \<subseteq> doc_id ` set docs"
proof -
  have "set (findSimilar emb qv docs k) \<subseteq>
        set (sort_key (\<lambda>(i, s). - s) (map (\<lambda>d. (doc_id d, cosineSimilarity emb qv (vector d))) docs))"
    unfolding findSimilar_def by (rule set_take_subset)
  then have "set (findSimilar emb qv docs k) \<subseteq>
        set (map (\<lambda>d. (doc_id d, cosineSimilarity emb qv (vector d))) docs)"
    by (simp only: set_sort)
  then show ?thesis by auto
qed

lemma index_wf_lookup:
  assumes "index_wf idx" "d \<in> set (map snd idx)"
  shows "map_of idx (doc_id d) = Some d"
proof -
  from assms(2) obtain i where "(i, d) \<in> set idx" by auto
  moreover from this assms(1) have "doc_id d = i" by (auto simp: index_wf_def list_all_iff)
  ultimately show ?thesis using assms(1) by (simp add: index_wf_def)
qed

lemma findSimilar_lookup:
  assumes "index_wf idx" "(i, s) \<in> set (findSimilar emb qv (map snd idx) k)"
  shows "\<exists>d. map_of idx i = Some d \<and> doc_id d = i"
proof -
  from assms(2) have "i \<in> doc_id ` set (map snd idx)"
    using findSimilar_ids[of emb qv "map snd idx" k] by force
  then obtain d where "d \<in> set (map snd idx)" "i = doc_id d" by auto
  then show ?thesis using index_wf_lookup[OF assms(1)] by auto
qed

lemma findSimilar_found:
  assumes "index_wf idx"
  shows "list_all (\<lambda>(i, s). map_of idx i \<noteq> None) (findSimilar emb qv (map snd idx) k)"
  using findSimilar_lookup[OF assms] by (fastforce simp: list_all_iff)

lemma findSimilar_own_ids:
  assumes "index_wf idx" "set sims \<subseteq> set (findSimilar emb qv (map snd idx) k)"
  shows "map (\<lambda>(i, s). (doc_id (the (map_of idx i)), s)) sims = sims"
proof (intro map_idI)
  fix p assume "p \<in> set sims"
  with assms(2) have mem: "p \<in> set (findSimilar emb qv (map snd idx) k)" by blast
  obtain i s where p1: "p = (i, s)" by (cases p) auto
  with mem have p: "p = (i, s)" "(i, s) \<in> set (findSimilar emb qv (map snd idx) k)" by simp_all
  from findSimilar_lookup[OF assms(1) p(2)] p(1)
  show "(case p of (i, s) \<Rightarrow> (doc_id (the (map_of idx i)), s)) = p" by auto
qed

lemma retrieveByVector_result:
  assumes wf: "index_wf (documentVectors e)"
  shows "\<exists>rs. retrieveByVector e emb q k = Inr rs \<and> length rs \<le> k \<and> ranked rs \<and>
              (documentVectors e \<noteq> [] \<and> 0 < k \<longrightarrow> rs \<noteq> []) \<and>
              (list_all (\<lambda>(i, s). s < similarityThreshold e)
                  (findSimilar emb (embed emb q) (map snd (documentVectors e)) (k * 2)) \<longrightarrow>
               map (\<lambda>r. (doc_id r, score r)) rs =
                 take k (findSimilar emb (embed emb q) (map snd (documentVectors e)) (k * 2)))"
proof -
  let ?idx = "documentVectors e"
  let ?sims = "findSimilar emb (embed emb q) (map snd ?idx) (k * 2)"
  let ?acc = "\<lambda>s n. s \<ge> similarityThreshold e \<and> n < k"
  have found: "list_all (\<lambda>(i, s). map_of ?idx i \<noteq> None) ?sims"
    by (rule findSimilar_found[OF wf])
  obtain results where first: "push_results ?acc ?idx ?sims [] = Inr results"
    using push_results_total[OF found] by blast
  have len1: "length results \<le> k"
    by (rule push_results_bounded[OF _ _ first]) simp_all
  have rk1: "ranked results"
    by (rule push_results_ranked[OF _ first]) (simp add: findSimilar_sorted)
  have none: "list_all (\<lambda>(i, s). s < similarityThreshold e) ?sims \<Longrightarrow> results = []"
  proof -
    assume "list_all (\<lambda>(i, s). s < similarityThreshold e) ?sims"
    then have "push_results ?acc ?idx ?sims [] = Inr []"
      by (intro push_results_none) (auto simp: list_all_iff)
    with first show "results = []" by simp
  qed
  have sims_ne: "documentVectors e \<noteq> [] \<Longrightarrow> 0 < k \<Longrightarrow> ?sims \<noteq> []"
  proof -
    assume "documentVectors e \<noteq> []" "0 < k"
    then have "length ?sims > 0" by (simp add: findSimilar_length)
    then show "?sims \<noteq> []" by simp
  qed
  show ?thesis
  proof (cases "length results = 0 \<and> length ?sims > 0")
    case False
    then have res: "retrieveByVector e emb q k = Inr results"
      using first by (simp add: retrieveByVector_def Let_def)
    have ne: "documentVectors e \<noteq> [] \<and> 0 < k \<longrightarrow> results \<noteq> []"
      using False sims_ne by auto
    have fb: "list_all (\<lambda>(i, s). s < similarityThreshold e) ?sims \<longrightarrow>
               map (\<lambda>r. (doc_id r, score r)) results = take k ?sims"
      using none False by auto
    show ?thesis using res len1 rk1 ne fb by simp
  next
    case True
    then have empty: "results = []" and sne: "?sims \<noteq> []" by auto
    have found2: "list_all (\<lambda>(i, s). map_of ?idx i \<noteq> None) (take k ?sims)"
      using found by (auto simp: list_all_iff dest: in_set_takeD)
    obtain rs where second: "push_results (\<lambda>s n. True) ?idx (take k ?sims) [] = Inr rs"
      using push_results_total[OF found2] by blast
    have res: "retrieveByVector e emb q k = Inr rs"
      using first second True empty by (simp add: retrieveByVector_def Let_def)
    have shape: "map (\<lambda>r. (doc_id r, score r)) rs = take k ?sims"
      using push_results_all[OF second]
        findSimilar_own_ids[OF wf, of "take k ?sims" emb "embed emb q" "k * 2"]
      by (simp add: set_take_subset)
    have "length (map (\<lambda>r. (doc_id r, score r)) rs) = length (take k ?sims)"
      by (simp only: shape)
    then have len: "length rs = min k (length ?sims)" by (simp add: min.commute)
    have rk: "ranked rs"
      by (rule push_results_ranked[OF _ second]) (simp add: findSimilar_sorted take_map[symmetric])
    have ne: "0 < k \<longrightarrow> rs \<noteq> []"
    proof
      assume "0 < k"
      moreover have "0 < length ?sims" using sne by simp
      ultimately have "0 < min k (length ?sims)" by linarith
      then have "0 < length rs" by (simp only: len)
      then show "rs \<noteq> []" by auto
    qed
    show ?thesis using res len rk ne shape by simp
  qed
qed

lemma retrieve_total:
  assumes "index_wf (documentVectors e)"
  shows "\<exists>docs. retrieve e q k = Inr docs"
proof (cases "embeddings e")
  case None
  then show ?thesis by (simp add: retrieve_def)
next
  case (Some emb)
  then show ?thesis
    using retrieveByVector_result[OF assms, of emb q k] by (auto simp: retrieve_def)
qed

lemma index_wf_update:
  assumes "index_wf idx" "doc_id v = i"
  shows "index_wf (AList.update i v idx)"
  using assms
  by (induction idx) (auto simp: index_wf_def list_all_iff AList.update_keys image_iff)

lemma index_wf_buildVectorIndex:
  assumes "index_wf (documentVectors e)" "buildVectorIndex e = Inr e'"
  shows "index_wf (documentVectors e')"
proof -
  have fold_wf: "index_wf (fold (\<lambda>doc idx. AList.update (doc_id doc)
                    \<lparr> doc_id = doc_id doc, content = content doc, metadata = metadata doc,
                      vector = f doc \<rparr> idx) docs idx)"
    if "index_wf idx" for f docs and idx :: "(string \<times> vector_entry) list"
    using that by (induction docs arbitrary: idx) (simp_all add: index_wf_update)
  show ?thesis
    using assms by (auto simp: buildVectorIndex_def fold_wf split: option.splits)
qed

text \<open>
  C2, as stated, fails on the code: without embeddings (or with an empty index) \<open>retrieve\<close>
  returns what the data source's \<open>search\<close> returns, untouched. Over a data source whose
  search gives two results in rising order of score whatever the limit, \<open>retrieve(query, 1)\<close>
  returns both, in that order.
\<close>

theorem retrieve_delegates_counterexample:
  "retrieve (demo_engine\<lparr> embeddings := None, dataSource := unranked_source \<rparr>) ''NLP'' 1 =
     Inr [\<lparr> doc_id = ''doc1'', content = ''Machine Learning'', metadata = [], score = 1 \<rparr>,
          \<lparr> doc_id = ''doc3'', content = ''NLP'', metadata = [], score = 2 \<rparr>] \<and>
   \<not> length [\<lparr> doc_id = ''doc1'', content = ''Machine Learning'', metadata = [], score = 1 \<rparr>,
             \<lparr> doc_id = ''doc3'', content = ''NLP'', metadata = [], score = 2 \<rparr>] \<le> 1 \<and>
   \<not> ranked [\<lparr> doc_id = ''doc1'', content = ''Machine Learning'', metadata = [], score = 1 \<rparr>,
             \<lparr> doc_id = ''doc3'', content = ''NLP'', metadata = [], score = 2 \<rparr>]"
  by (simp add: retrieve_def ranked_def unranked_source_def demo_engine_def)

text \<open>
  C2, amended: with embeddings configured and a non-empty vector index, \<open>retrieve(query, k)\<close>
  returns at most \<open>k\<close> results, ordered by score non-increasing; with no embeddings or an
  empty index it returns the result of the data source's \<open>search(query, k)\<close> as it is.
\<close>

theorem retrieve_vector_at_most_k_ranked:
  assumes "index_wf (documentVectors e)"
  shows "(embeddings e \<noteq> None \<and> documentVectors e \<noteq> [] \<longrightarrow>
            (\<exists>rs. retrieve e q k = Inr rs \<and> length rs \<le> k \<and> ranked rs)) \<and>
         (embeddings e = None \<or> documentVectors e = [] \<longrightarrow>
            retrieve e q k = Inr (search (dataSource e) q k))"
proof (intro conjI impI)
  assume "embeddings e \<noteq> None \<and> documentVectors e \<noteq> []"
  then obtain emb where "embeddings e = Some emb" "documentVectors e \<noteq> []" by auto
  then have "retrieve e q k = retrieveByVector e emb q k" by (simp add: retrieve_def)
  then show "\<exists>rs. retrieve e q k = Inr rs \<and> length rs \<le> k \<and> ranked rs"
    using retrieveByVector_result[OF assms, of emb q k] by auto
next
  assume "embeddings e = None \<or> documentVectors e = []"
  then show "retrieve e q k = Inr (search (dataSource e) q k)"
    by (auto simp: retrieve_def split: option.splits)
qed

theorem retrieve_vector_at_most_k_ranked_witness:
  "index_wf demo_index \<and>
   embeddings (demo_engine\<lparr> documentVectors := demo_index \<rparr>) \<noteq> None \<and>
   retrieve (demo_engine\<lparr> documentVectors := demo_index \<rparr>) ''What is ML?'' 2 =
     Inr [\<lparr> doc_id = ''doc2'', content = ''Deep Learning'', metadata = [], score = 1 / 3 \<rparr>,
          \<lparr> doc_id = ''doc1'', content = ''Machine Learning'', metadata = [], score = 1 / 6 \<rparr>] \<and>
   (\<exists>rs. retrieve (demo_engine\<lparr> documentVectors := demo_index \<rparr>) ''Deep'' 1 = Inr rs \<and>
         length rs \<le> 1 \<and> ranked rs) \<and>
   embeddings (demo_engine\<lparr> embeddings := None \<rparr>) = None \<and>
   retrieve (demo_engine\<lparr> embeddings := None \<rparr>) ''NLP'' 1 = Inr []"
proof -
  let ?e = "demo_engine\<lparr> documentVectors := demo_index \<rparr>"
  let ?f = "demo_engine\<lparr> embeddings := None \<rparr>"
  have wf: "index_wf (documentVectors ?e)" and wf0: "index_wf (documentVectors ?f)"
    by (simp_all add: index_wf_def demo_eval)
  have vec: "embeddings ?e \<noteq> None \<and> documentVectors ?e \<noteq> []"
    and del: "embeddings ?f = None \<or> documentVectors ?f = []"
    and src: "search (dataSource ?f) ''NLP'' 1 = []"
    by (simp_all add: demo_eval)
  have two: "retrieve ?e ''What is ML?'' 2 =
     Inr [\<lparr> doc_id = ''doc2'', content = ''Deep Learning'', metadata = [], score = 1 / 3 \<rparr>,
          \<lparr> doc_id = ''doc1'', content = ''Machine Learning'', metadata = [], score = 1 / 6 \<rparr>]"
    by (simp add: query_eval demo_eval)
  have one: "\<exists>rs. retrieve ?e ''Deep'' 1 = Inr rs \<and> length rs \<le> 1 \<and> ranked rs"
    using retrieve_vector_at_most_k_ranked[OF wf, of "''Deep''" 1] vec by blast
  have none: "retrieve ?f ''NLP'' 1 = Inr []"
    using retrieve_vector_at_most_k_ranked[OF wf0, of "''NLP''" 1] del src by simp
  have "index_wf demo_index" using wf by simp
  then show ?thesis using vec del two one none by simp
qed

text \<open>
  C3: with embeddings configured and a non-empty vector index, \<open>retrieve\<close> asked for at
  least one result never returns an empty list; when no candidate reaches the similarity
  threshold, the best \<open>topK\<close> candidates are returned as they are ranked.
\<close>

theorem retrieve_never_empty:
  assumes "embeddings e = Some emb" "documentVectors e \<noteq> []"
    and "index_wf (documentVectors e)" "0 < k"
  shows "\<exists>rs. retrieve e q k = Inr rs \<and> rs \<noteq> [] \<and>
              (list_all (\<lambda>(i, s). s < similarityThreshold e)
                  (findSimilar emb (embed emb q) (map snd (documentVectors e)) (k * 2)) \<longrightarrow>
               map (\<lambda>r. (doc_id r, score r)) rs =
                 take k (findSimilar emb (embed emb q) (map snd (documentVectors e)) (k * 2)))"
proof -
  have "retrieve e q k = retrieveByVector e emb q k" using assms(1,2) by (simp add: retrieve_def)
  then show ?thesis using retrieveByVector_result[OF assms(3), of emb q k] assms(2,4) by auto
qed

theorem retrieve_never_empty_witness:
  "index_wf demo_index \<and>
   list_all (\<lambda>(i, s). s < 0.5)
     (findSimilar demo_embeddings (embed demo_embeddings ''What is ML?'') (map snd demo_index) (2 * 2)) \<and>
   retrieve (demo_engine\<lparr> documentVectors := demo_index, similarityThreshold := 0.5 \<rparr>) ''What is ML?'' 2 =
     Inr [\<lparr> doc_id = ''doc2'', content = ''Deep Learning'', metadata = [], score = 1 / 3 \<rparr>,
          \<lparr> doc_id = ''doc1'', content = ''Machine Learning'', metadata = [], score = 1 / 6 \<rparr>]"
proof -
  have emb: "embeddings (demo_engine\<lparr> documentVectors := demo_index, similarityThreshold := 0.5 \<rparr>) =
               Some demo_embeddings"
    and ne: "documentVectors (demo_engine\<lparr> documentVectors := demo_index, similarityThreshold := 0.5 \<rparr>) \<noteq> []"
    and wf: "index_wf (documentVectors (demo_engine\<lparr> documentVectors := demo_index, similarityThreshold := 0.5 \<rparr>))"
    by (simp_all add: index_wf_def demo_eval)
  have k: "0 < (2 :: nat)" by simp
  show ?thesis
    using retrieve_never_empty[OF emb ne wf k, of "''What is ML?''"] wf
    by (simp add: query_eval demo_eval)
qed

section \<open>Properties of routing\<close>

lemma fold_score_sum:
  "fold (\<lambda>d sum. sum + score d) docs a = a + sum_list (map score docs)"
  by (induction docs arbitrary: a) simp_all

lemma mean_score_sum:
  "mean_score docs = sum_list (map score docs) / real (length docs)"
  by (simp add: mean_score_def fold_score_sum)

text \<open>
  C4: \<open>routeQuery\<close> classifies what \<open>retrieve\<close> returned: an empty retrieval gives
  \<open>no_documents\<close> (\<open>useRAG\<close> false); a first result scored strictly below
  \<open>routingThreshold\<close> gives \<open>low_relevance\<close> (\<open>useRAG\<close> false); anything else gives
  \<open>relevant_content\<close> (\<open>useRAG\<close> true). For a non-empty retrieval \<open>topScore\<close> is the first
  result's score and \<open>avgScore\<close> the arithmetic mean of all scores.
\<close>

theorem routeQuery_classification:
  assumes "index_wf (documentVectors e)"
  shows "\<exists>docs d. retrieve e q (topK e) = Inr docs \<and> routeQuery e q = Inr d \<and>
           route_reason d =
             (if docs = [] then ''no_documents''
              else if score (hd docs) < routingThreshold e then ''low_relevance''
              else ''relevant_content'') \<and>
           useRAG d = (docs \<noteq> [] \<and> \<not> score (hd docs) < routingThreshold e) \<and>
           route_docs d = docs \<and>
           (docs \<noteq> [] \<longrightarrow>
              route_topScore d = Some (score (hd docs)) \<and>
              route_avgScore d = Some (sum_list (map score docs) / real (length docs)))"
proof -
  obtain docs where r: "retrieve e q (topK e) = Inr docs"
    using retrieve_total[OF assms] by blast
  show ?thesis
  proof (cases docs)
    case Nil
    then show ?thesis using r by (simp add: routeQuery_def)
  next
    case (Cons x xs)
    then show ?thesis
      using r by (simp add: routeQuery_def top_score_def Let_def mean_score_sum)
  qed
qed

theorem routeQuery_classification_witness:
  "index_wf demo_index \<and>
   (\<exists>d. routeQuery (demo_engine\<lparr> documentVectors := demo_index \<rparr>) ''What is ML?'' = Inr d \<and>
        route_reason d = ''relevant_content'' \<and> useRAG d \<and>
        route_topScore d = Some (1 / 3) \<and> route_avgScore d = Some (1 / 4)) \<and>
   (\<exists>d. routeQuery (demo_engine\<lparr> documentVectors := demo_index \<rparr>)
          ''Natural language processing, what is it?'' = Inr d \<and>
        route_reason d = ''low_relevance'' \<and> \<not> useRAG d \<and> route_topScore d = Some (1 / 25)) \<and>
   (\<exists>d. routeQuery (demo_engine\<lparr> embeddings := None \<rparr>) ''What is ML?'' = Inr d \<and>
        route_reason d = ''no_documents'' \<and> \<not> useRAG d)"
proof -
  let ?e = "demo_engine\<lparr> documentVectors := demo_index \<rparr>"
  let ?f = "demo_engine\<lparr> embeddings := None \<rparr>"
  have wf: "index_wf (documentVectors ?e)" and wf0: "index_wf (documentVectors ?f)"
    by (simp_all add: index_wf_def demo_eval)
  have a: "retrieve ?e ''What is ML?'' (topK ?e) =
     Inr [\<lparr> doc_id = ''doc2'', content = ''Deep Learning'', metadata = [], score = 1 / 3 \<rparr>,
          \<lparr> doc_id = ''doc1'', content = ''Machine Learning'', metadata = [], score = 1 / 6 \<rparr>]"
    by (simp add: query_eval demo_eval)
  have b: "retrieve ?e ''Natural language processing, what is it?'' (topK ?e) =
     Inr [\<lparr> doc_id = ''doc1'', content = ''Machine Learning'', metadata = [], score = 1 / 25 \<rparr>,
          \<lparr> doc_id = ''doc2'', content = ''Deep Learning'', metadata = [], score = 1 / 28 \<rparr>,
          \<lparr> doc_id = ''doc3'', content = ''NLP'', metadata = [], score = 1 / 38 \<rparr>]"
    by (simp add: query_eval demo_eval)
  have c: "retrieve ?f ''What is ML?'' (topK ?f) = Inr []"
    by (simp add: query_eval demo_eval)
  have thr: "routingThreshold ?e = 1 / 4"
    by (simp add: demo_eval)
  have A: "\<exists>d. routeQuery ?e ''What is ML?'' = Inr d \<and>
        route_reason d = ''relevant_content'' \<and> useRAG d \<and>
        route_topScore d = Some (1 / 3) \<and> route_avgScore d = Some (1 / 4)"
    using routeQuery_classification[OF wf, of "''What is ML?''"] a thr by auto
  have B: "\<exists>d. routeQuery ?e ''Natural language processing, what is it?'' = Inr d \<and>
        route_reason d = ''low_relevance'' \<and> \<not> useRAG d \<and> route_topScore d = Some (1 / 25)"
    using routeQuery_classification[OF wf, of "''Natural language processing, what is it?''"] b thr
    by auto
  have C: "\<exists>d. routeQuery ?f ''What is ML?'' = Inr d \<and>
        route_reason d = ''no_documents'' \<and> \<not> useRAG d"
    using routeQuery_classification[OF wf0, of "''What is ML?''"] c by auto
  have "index_wf demo_index" using wf by simp
  then show ?thesis using A B C by blast
qed

section \<open>Properties of the orchestrator\<close>

lemma validateQuery_rejected_reason:
  assumes "\<not> allowed (fst (validateQuery g q uid now))"
  shows "reason (fst (validateQuery g q uid now)) = Some (query_too_long_reason (maxQueryLength g)) \<or>
         (\<exists>rl. rateLimit g = Some rl \<and>
               reason (fst (validateQuery g q uid now)) = Some (rate_limit_reason rl)) \<or>
         reason (fst (validateQuery g q uid now)) = Some ''Query contains blocked content''"
  using assms by (simp add: validateQuery_def Let_def split: option.splits if_splits)

lemma retrieve_step_total:
  assumes "index_wf (documentVectors e)"
  shows "\<exists>docs routingInfo. retrieve_step e q options = Inr (docs, routingInfo)"
  using retrieve_total[OF assms, of q "or_default (opt_topK options) (topK e)"]
  by (auto simp: retrieve_step_def Let_def)

lemma validateQuery_state:
  "\<exists>rc. snd (validateQuery g q uid now) = g\<lparr> requestCounts := rc \<rparr>"
proof (cases "rateLimit g")
  case None
  have "snd (validateQuery g q uid now) = g\<lparr> requestCounts := requestCounts g \<rparr>"
    using None by (simp add: validateQuery_def Let_def)
  then show ?thesis by blast
next
  case (Some rl)
  have "snd (validateQuery g q uid now) = g\<lparr> requestCounts := requestCounts g \<rparr> \<or>
        snd (validateQuery g q uid now) = g\<lparr> requestCounts := (requestCounts g)
                (userId_of uid \<mapsto> recentRequests_of g rl (userId_of uid) now @ [now]) \<rparr>"
    using Some by (simp add: validateQuery_def Let_def)
  then show ?thesis by blast
qed

lemma guard_requestCounts [simp]:
  "validateResponse (g\<lparr> requestCounts := rc \<rparr>) a = validateResponse g a"
  "validateDocument (g\<lparr> requestCounts := rc \<rparr>) c = validateDocument g c"
  "applyResponsePolicies (g\<lparr> requestCounts := rc \<rparr>) a q = applyResponsePolicies g a q"
  by (simp_all add: validateResponse_def validateDocument_def applyResponsePolicies_def)

lemma retrieveByVector_llm [simp]:
  "retrieveByVector (e\<lparr> llm := backend \<rparr>) emb q k = retrieveByVector e emb q k"
  by (simp add: retrieveByVector_def Let_def cong: sum.case_cong if_cong)

lemma retrieve_llm [simp]:
  "retrieve (e\<lparr> llm := backend \<rparr>) q k = retrieve e q k"
  by (simp add: retrieve_def cong: option.case_cong if_cong)

lemma retrieve_step_llm [simp]:
  "retrieve_step (e\<lparr> llm := backend \<rparr>) q options = retrieve_step e q options"
  by (simp add: retrieve_step_def)

lemma select_prompt_llm [simp]:
  "select_prompt (e\<lparr> llm := backend \<rparr>) options m ri docs = select_prompt e options m ri docs"
  by (simp add: select_prompt_def mode_prompt_def cong: option.case_cong if_cong)

lemma validate_step_llm [simp]:
  "validate_step (e\<lparr> llm := backend \<rparr>) q options now = validate_step e q options now"
  by (simp add: validate_step_def)

lemma query_frame:
  assumes "query e q options now = Inr (r, e')"
  shows "\<exists>r2 e2. query (e\<lparr> llm := backend \<rparr>) q options now = Inr (r2, e2) \<and>
           res_sources r2 = res_sources r \<and> res_routing r2 = res_routing r \<and>
           res_mode r2 = res_mode r \<and> res_query r2 = res_query r \<and>
           res_warnings r2 = res_warnings r \<and> res_blocked r2 = res_blocked r \<and>
           res_reason r2 = res_reason r"
  using assms
  by (auto simp: query_def split_beta Let_def split: if_splits sum.splits)


text \<open>
  C1: when \<open>validateQuery\<close> rejects the query (too long, rate-limited or a blocked term),
  \<open>query\<close> on an initialised engine returns a result, not an exception: \<open>blocked\<close> is
  true, \<open>sources\<close> is empty, the answer is "I cannot process this query: " followed by the
  rejection reason, and no call to \<open>generateResponse\<close> is made.
\<close>

theorem query_rejected_short_circuit:
  assumes "initialized e" and "guardrails e = Some g" and "index_wf (documentVectors e)"
    and "\<not> allowed (fst (validateQuery g q (opt_userId options) now))"
  shows "\<exists>r e' why. query e q options now = Inr (r, e') \<and>
           res_blocked r \<and> res_sources r = [] \<and>
           reason (fst (validateQuery g q (opt_userId options) now)) = Some why \<and>
           res_answer r = ''I cannot process this query: '' @ why \<and>
           res_reason r = Some why \<and>
           (why = query_too_long_reason (maxQueryLength g) \<or>
            (\<exists>rl. rateLimit g = Some rl \<and> why = rate_limit_reason rl) \<or>
            why = ''Query contains blocked content'') \<and>
           llm_calls e' = llm_calls e"
proof -
  obtain docs routingInfo where rs: "retrieve_step e q options = Inr (docs, routingInfo)"
    using retrieve_step_total[OF assms(3)] by blast
  obtain v g' where vq: "validateQuery g q (opt_userId options) now = (v, g')"
    by (cases "validateQuery g q (opt_userId options) now")
  with assms(4) have rej: "\<not> allowed v" by simp
  from validateQuery_rejected_reason[OF assms(4)] vq
  obtain why where why: "reason v = Some why"
    "why = query_too_long_reason (maxQueryLength g) \<or>
     (\<exists>rl. rateLimit g = Some rl \<and> why = rate_limit_reason rl) \<or>
     why = ''Query contains blocked content''"
    by auto
  show ?thesis
    using assms(1,2) rs vq rej why
    by (simp add: query_def validate_step_def reason_text_def split_beta)
qed

theorem query_rejected_short_circuit_witness:
  "initialized (demo_engine\<lparr> documentVectors := demo_index, guardrails := Some demo_guardrails \<rparr>) \<and>
   index_wf demo_index \<and>
   \<not> allowed (fst (validateQuery demo_guardrails ''about malware'' None 5)) \<and>
   (\<exists>r e'. query (demo_engine\<lparr> documentVectors := demo_index, guardrails := Some demo_guardrails \<rparr>)
              ''about malware'' default_options 5 = Inr (r, e') \<and>
            res_blocked r \<and> res_sources r = [] \<and>
            res_answer r = ''I cannot process this query: Query contains blocked content'' \<and>
            llm_calls e' = [])"
proof -
  let ?e = "demo_engine\<lparr> documentVectors := demo_index, guardrails := Some demo_guardrails \<rparr>"
  have init: "initialized ?e" and g: "guardrails ?e = Some demo_guardrails"
    and wf: "index_wf (documentVectors ?e)" and calls: "llm_calls ?e = []"
    by (simp_all add: demo_eval index_wf_def)
  have rej: "\<not> allowed (fst (validateQuery demo_guardrails ''about malware'' (opt_userId default_options) 5))"
    and why: "reason (fst (validateQuery demo_guardrails ''about malware'' (opt_userId default_options) 5)) =
                Some ''Query contains blocked content''"
    by (simp_all add: default_options_def guard_eval demo_eval string_eval)
  from query_rejected_short_circuit[OF init g wf rej] why calls
  have "\<exists>r e'. query ?e ''about malware'' default_options 5 = Inr (r, e') \<and>
            res_blocked r \<and> res_sources r = [] \<and>
            res_answer r = ''I cannot process this query: Query contains blocked content'' \<and>
            llm_calls e' = []"
    by auto
  then show ?thesis using init wf rej by (simp add: default_options_def)
qed

lemma validateResponse_too_long:
  assumes "\<not> allowed (validateResponse g a)" "length a > maxResponseLength g"
  shows "reason (validateResponse g a) = Some (response_too_long_reason (maxResponseLength g))"
  using assms by (simp add: validateResponse_def split: if_splits)

text \<open>
  C6: when \<open>validateResponse\<close> rejects the generated response, \<open>query\<close> returns the
  answer "Response blocked: " followed by the rejection reason; for a response longer than
  \<open>maxResponseLength\<close> that is "Response blocked: Response exceeds maximum length of
  \<open>maxResponseLength\<close> characters". The sources, routing, mode, query and warnings returned are
  those returned with any other generation backend, so those of the accepted path.
\<close>

theorem rejected_response_replaces_answer:
  assumes "guardrails e = Some g"
    and "query e q options now = Inr (r, e')"
    and "llm_calls e' = llm_calls e @ [(q1, ctx, gen)]"
    and "\<not> allowed (validateResponse g (generateResponse (llm e) q1 ctx gen))"
  shows "res_answer r = ''Response blocked: '' @
             reason_text (reason (validateResponse g (generateResponse (llm e) q1 ctx gen))) \<and>
         (length (generateResponse (llm e) q1 ctx gen) > maxResponseLength g \<longrightarrow>
            res_answer r = ''Response blocked: Response exceeds maximum length of '' @
              show_nat (maxResponseLength g) @ '' characters'') \<and>
         (\<forall>backend. \<exists>r2 e2. query (e\<lparr> llm := backend \<rparr>) q options now = Inr (r2, e2) \<and>
            res_sources r2 = res_sources r \<and> res_routing r2 = res_routing r \<and>
            res_mode r2 = res_mode r \<and> res_query r2 = res_query r \<and>
            res_warnings r2 = res_warnings r \<and> res_blocked r2 = res_blocked r)"
proof -
  let ?answer = "generateResponse (llm e) q1 ctx gen"
  obtain v g' where vq: "validateQuery g q (opt_userId options) now = (v, g')"
    by (cases "validateQuery g q (opt_userId options) now")
  obtain rc where g': "g' = g\<lparr> requestCounts := rc \<rparr>"
    using validateQuery_state[of g q "opt_userId options" now] vq by auto
  have ans: "res_answer r = ''Response blocked: '' @ reason_text (reason (validateResponse g ?answer))"
    using assms vq g'
    by (auto simp: query_def validate_step_def final_answer_def split_beta Let_def
             split: if_splits sum.splits)
  have long: "length ?answer > maxResponseLength g \<longrightarrow>
            res_answer r = ''Response blocked: Response exceeds maximum length of '' @
              show_nat (maxResponseLength g) @ '' characters''"
    using ans validateResponse_too_long[OF assms(4)]
    by (simp add: reason_text_def response_too_long_reason_def)
  have frame: "\<forall>backend. \<exists>r2 e2. query (e\<lparr> llm := backend \<rparr>) q options now = Inr (r2, e2) \<and>
            res_sources r2 = res_sources r \<and> res_routing r2 = res_routing r \<and>
            res_mode r2 = res_mode r \<and> res_query r2 = res_query r \<and>
            res_warnings r2 = res_warnings r \<and> res_blocked r2 = res_blocked r"
    using query_frame[OF assms(2)] by blast
  show ?thesis using ans long frame by blast
qed


theorem rejected_response_replaces_answer_witness:
  "maxResponseLength demo_guardrails = 10000 \<and>
   (\<exists>r e' r2 e2.
      query (demo_engine\<lparr> documentVectors := demo_index, guardrails := Some demo_guardrails,
                            llm := long_llm \<rparr>) ''What is ML?'' default_options 0 = Inr (r, e') \<and>
      res_answer r = ''Response blocked: Response exceeds maximum length of 10000 characters'' \<and>
      query (demo_engine\<lparr> documentVectors := demo_index, guardrails := Some demo_guardrails \<rparr>)
        ''What is ML?'' default_options 0 = Inr (r2, e2) \<and>
      res_answer r2 = ''An answer.'' \<and>
      res_sources r = res_sources r2 \<and> res_routing r = res_routing r2 \<and> length (res_sources r) = 2)"
proof -
  let ?e = "demo_engine\<lparr> documentVectors := demo_index, guardrails := Some demo_guardrails,
                            llm := long_llm \<rparr>"
  let ?ctx = "[\<lparr> doc_id = ''doc2'', content = ''Deep Learning'', metadata = [], score = 1 / 3 \<rparr>,
               \<lparr> doc_id = ''doc1'', content = ''Machine Learning'', metadata = [], score = 1 / 6 \<rparr>]"
  let ?gen = "\<lparr> history = None, systemPrompt = Some getHybridPrompt, temperature = None \<rparr>"
  have g: "guardrails ?e = Some demo_guardrails" by (simp add: demo_eval)
  have max: "maxResponseLength demo_guardrails = 10000" by (simp add: demo_eval)
  have run: "\<exists>r e'. query ?e ''What is ML?'' default_options 0 = Inr (r, e') \<and>
               llm_calls e' = llm_calls ?e @ [(''What is ML?'', ?ctx, ?gen)] \<and> length (res_sources r) = 2"
    by (simp add: query_eval guard_eval demo_eval string_eval long_llm_def)
  then obtain r e' where q: "query ?e ''What is ML?'' default_options 0 = Inr (r, e')"
    and log: "llm_calls e' = llm_calls ?e @ [(''What is ML?'', ?ctx, ?gen)]"
    and two: "length (res_sources r) = 2"
    by blast
  have rej: "\<not> allowed (validateResponse demo_guardrails
               (generateResponse (llm ?e) ''What is ML?'' ?ctx ?gen))"
    and long: "length (generateResponse (llm ?e) ''What is ML?'' ?ctx ?gen) >
                 maxResponseLength demo_guardrails"
    by (simp_all add: validateResponse_def demo_eval long_llm_def)
  note main = rejected_response_replaces_answer[OF g q log rej]
  from main have "length (generateResponse (llm ?e) ''What is ML?'' ?ctx ?gen) >
                 maxResponseLength demo_guardrails \<longrightarrow>
            res_answer r = ''Response blocked: Response exceeds maximum length of '' @
              show_nat (maxResponseLength demo_guardrails) @ '' characters''"
    by blast
  with long have "res_answer r = ''Response blocked: Response exceeds maximum length of '' @
              show_nat (maxResponseLength demo_guardrails) @ '' characters''"
    by blast
  then have ans: "res_answer r = ''Response blocked: Response exceeds maximum length of 10000 characters''"
    by (simp add: max show_nat.simps)
  from main obtain r2 e2 where
    q2: "query (?e\<lparr> llm := demo_llm \<rparr>) ''What is ML?'' default_options 0 = Inr (r2, e2)"
    and same: "res_sources r2 = res_sources r" "res_routing r2 = res_routing r"
    by blast
  have e_eq: "?e\<lparr> llm := demo_llm \<rparr> =
              demo_engine\<lparr> documentVectors := demo_index, guardrails := Some demo_guardrails \<rparr>"
    by (simp add: demo_engine_def)
  have a2: "res_answer r2 = ''An answer.''"
    using q2 by (auto simp: query_eval guard_eval demo_eval string_eval default_options_def)
  show ?thesis using max q ans q2 a2 same two unfolding e_eq by auto
qed

section \<open>Properties of the vector index\<close>

text \<open>
  C8 (after refresh the vector index holds exactly the ids of the documents the data
  source returns now; the id of a removed document is gone) fails on the code:
  \<open>buildVectorIndex\<close> only sets entries and nothing clears the map. The index is built over
  \<open>doc1\<close> and \<open>doc2\<close>; \<open>doc2\<close> is then removed from the store; after \<open>refresh\<close> the data
  source returns \<open>doc1\<close> alone and the index still has the entry of \<open>doc2\<close>.
\<close>

theorem refresh_keeps_removed_document:
  "\<exists>e1 e2.
     buildVectorIndex
       (demo_engine\<lparr> dataSource := \<lparr> documents = [doc1, doc2], search = (\<lambda>q limit. []) \<rparr> \<rparr>) = Inr e1 \<and>
     refresh e1 [doc1] = Inr e2 \<and>
     map doc_id (getDocuments (dataSource e2)) = [''doc1''] \<and>
     map fst (documentVectors e2) = [''doc1'', ''doc2'']"
  by (simp add: buildVectorIndex_def refresh_def loadDocuments_def buildVocabulary_def
      demo_eval getDocuments_def embed_def)

end
